theory Spec2Isabelle
  imports Complex_Main
begin

section \<open>The cable game: data model\<close>

text \<open>
  The game of \<^verbatim>\<open>src/cable-game.py\<close>: a cable (the trail) grows by one cell per
  tick over a grid of \<open>width \<times> height\<close> cells, steered by the arrow keys, towards the
  outlet, while obstacles walk over the grid. Cells and headings are pairs of Python
  integers, hence pairs of \<open>int\<close>.
\<close>

type_synonym cell = "int \<times> int"

type_synonym vec = "int \<times> int"

text \<open>\<^verbatim>\<open>class Direction(Enum)\<close> and the \<^verbatim>\<open>.value\<close> of each member.\<close>

datatype Direction = UP | DOWN | LEFT | RIGHT

fun Direction_value :: "Direction \<Rightarrow> vec" where
  "Direction_value UP = (0, -1)"
| "Direction_value DOWN = (0, 1)"
| "Direction_value LEFT = (-1, 0)"
| "Direction_value RIGHT = (1, 0)"

text \<open>
  The key codes of pygame that \<^verbatim>\<open>_process_direction_change\<close> compares with; every
  other key code is \<open>K_OTHER\<close>.
\<close>

datatype key = K_UP | K_DOWN | K_LEFT | K_RIGHT | K_OTHER int

text \<open>The exceptions that the modelled code can raise.\<close>

datatype error = IndexError | KeyError | ValueError | UnboundLocalError

text \<open>What a tick makes audible or prints.\<close>

datatype event = FailSound | SuccessSound | Print string

text \<open>
  The fields of \<^verbatim>\<open>Game\<close> that the game logic reads and writes. The Python set
  \<^verbatim>\<open>obstacles\<close> is a set, the dict \<^verbatim>\<open>obstacle_directions\<close> a map.
\<close>

record game =
  width :: int
  height :: int
  cable :: "cell list"
  direction :: Direction
  obstacles :: "cell set"
  obstacle_directions :: "cell \<rightharpoonup> vec"
  outlet :: cell
  running :: bool

section \<open>Steering\<close>

text \<open>
  \<^verbatim>\<open>Game._process_direction_change\<close>, lines 200 to 219. \<^verbatim>\<open>new_direction\<close> starts
  as \<^verbatim>\<open>None\<close>; a member of a plain \<^verbatim>\<open>Enum\<close> is always true, so the last
  \<^verbatim>\<open>if\<close> only tells \<^verbatim>\<open>None\<close> from a member.
\<close>

definition process_direction_change :: "key \<Rightarrow> game \<Rightarrow> game" where
  "process_direction_change k g =
     (let (current_dx, current_dy) = Direction_value (direction g);
          new_direction =
            (if k = K_UP \<and> current_dy = 0 then Some UP
             else if k = K_DOWN \<and> current_dy = 0 then Some DOWN
             else if k = K_LEFT \<and> current_dx = 0 then Some LEFT
             else if k = K_RIGHT \<and> current_dx = 0 then Some RIGHT
             else None)
      in case new_direction of
           Some d \<Rightarrow> g\<lparr>direction := d\<rparr>
         | None \<Rightarrow> g)"

text \<open>The key that requests a heading.\<close>

fun key_of :: "Direction \<Rightarrow> key" where
  "key_of UP = K_UP"
| "key_of DOWN = K_DOWN"
| "key_of LEFT = K_LEFT"
| "key_of RIGHT = K_RIGHT"

text \<open>
  Two headings are opposite when their vectors are negations of each other, and
  perpendicular when the scalar product of their vectors is zero.
\<close>

definition is_opposite :: "Direction \<Rightarrow> Direction \<Rightarrow> bool" where
  "is_opposite a b \<longleftrightarrow>
     Direction_value a = (- fst (Direction_value b), - snd (Direction_value b))"

definition is_perpendicular :: "Direction \<Rightarrow> Direction \<Rightarrow> bool" where
  "is_perpendicular a b \<longleftrightarrow>
     fst (Direction_value a) * fst (Direction_value b)
       + snd (Direction_value a) * snd (Direction_value b) = 0"

section \<open>Moving obstacles\<close>

text \<open>
  \<^verbatim>\<open>Game._random_direction\<close>: \<^verbatim>\<open>random.choice\<close> over a list of four headings.
  The number \<open>k\<close> stands for the random choice; every \<open>k\<close> picks one of the four
  entries and every entry is picked by some \<open>k\<close>.
\<close>

definition random_direction :: "nat \<Rightarrow> vec" where
  "random_direction k = [(0, 1), (0, -1), (1, 0), (-1, 0)] ! (k mod 4)"

text \<open>
  The random values drawn while \<^verbatim>\<open>_update_obstacles\<close> visits one obstacle: the
  result of \<^verbatim>\<open>random.random()\<close> at line 170, the choice of
  \<^verbatim>\<open>_random_direction()\<close> at line 171 (used only when the first is below 0.1) and
  the choice of \<^verbatim>\<open>_random_direction()\<close> at line 186 (used only when the move is
  rejected).
\<close>

record draw =
  turn_draw :: real
  turn_choice :: nat
  bounce_choice :: nat

text \<open>
  The variables of the loop of \<^verbatim>\<open>_update_obstacles\<close>: the dict
  \<^verbatim>\<open>self.obstacle_directions\<close>, which the loop writes to, and the two results under
  construction.
\<close>

record walk =
  dirs :: "cell \<rightharpoonup> vec"
  new_obstacles :: "cell set"
  new_directions :: "cell \<rightharpoonup> vec"

text \<open>
  The body of the loop, lines 170 to 187, for the obstacle \<open>obs\<close>. Reading
  \<^verbatim>\<open>self.obstacle_directions[obs]\<close> raises \<^verbatim>\<open>KeyError\<close> when the key is missing.
\<close>

definition move_obstacle :: "game \<Rightarrow> draw \<Rightarrow> cell \<Rightarrow> walk \<Rightarrow> error + walk" where
  "move_obstacle g r obs s =
     (let dirs1 = (if turn_draw r < 0.1
                   then (dirs s)(obs \<mapsto> random_direction (turn_choice r))
                   else dirs s)
      in case dirs1 obs of
           None \<Rightarrow> Inl KeyError
         | Some (dx, dy) \<Rightarrow>
             let new_pos = (fst obs + dx, snd obs + dy)
             in if 0 < fst new_pos \<and> fst new_pos < width g - 1
                   \<and> 0 < snd new_pos \<and> snd new_pos < height g - 1
                   \<and> new_pos \<notin> set (cable g)
                   \<and> new_pos \<noteq> outlet g
                then Inr \<lparr>dirs = dirs1,
                          new_obstacles = insert new_pos (new_obstacles s),
                          new_directions = (new_directions s)(new_pos \<mapsto> (dx, dy))\<rparr>
                else let d = random_direction (bounce_choice r)
                     in Inr \<lparr>dirs = dirs1(obs \<mapsto> d),
                              new_obstacles = insert obs (new_obstacles s),
                              new_directions = (new_directions s)(obs \<mapsto> d)\<rparr>)"

text \<open>
  The loop \<^verbatim>\<open>for obs in self.obstacles\<close>. Python fixes no order for the iteration
  over a set, so the order is a parameter: a list that enumerates the set.
  \<open>rnd obs\<close> are the random values drawn while \<open>obs\<close> is visited.
\<close>

fun walk_loop :: "game \<Rightarrow> (cell \<Rightarrow> draw) \<Rightarrow> cell list \<Rightarrow> walk \<Rightarrow> error + walk" where
  "walk_loop g rnd [] s = Inr s"
| "walk_loop g rnd (obs # rest) s =
     (case move_obstacle g (rnd obs) obs s of
        Inl e \<Rightarrow> Inl e
      | Inr s' \<Rightarrow> walk_loop g rnd rest s')"

text \<open>\<^verbatim>\<open>Game._update_obstacles\<close>, lines 164 to 190.\<close>

definition update_obstacles :: "game \<Rightarrow> cell list \<Rightarrow> (cell \<Rightarrow> draw) \<Rightarrow> error + game" where
  "update_obstacles g order rnd =
     (case walk_loop g rnd order
             \<lparr>dirs = obstacle_directions g, new_obstacles = {}, new_directions = Map.empty\<rparr> of
        Inl e \<Rightarrow> Inl e
      | Inr s \<Rightarrow> Inr (g\<lparr>obstacles := new_obstacles s,
                         obstacle_directions := new_directions s\<rparr>))"

text \<open>
  A list is an iteration order of the obstacle set when it holds every obstacle once.
\<close>

definition iterates :: "cell list \<Rightarrow> game \<Rightarrow> bool" where
  "iterates order g \<longleftrightarrow> distinct order \<and> set order = obstacles g"

text \<open>
  The vocabulary of the results about one obstacle. A cell of the grid has
  \<open>0 \<le> x < width\<close> and \<open>0 \<le> y < height\<close>; the interior band leaves out the
  outermost row and column on every side; a destination is free for an obstacle when it
  lies in the band and is neither a cable cell nor the outlet.
\<close>

definition in_grid :: "game \<Rightarrow> cell \<Rightarrow> bool" where
  "in_grid g p \<longleftrightarrow> 0 \<le> fst p \<and> fst p < width g \<and> 0 \<le> snd p \<and> snd p < height g"

definition in_band :: "game \<Rightarrow> cell \<Rightarrow> bool" where
  "in_band g p \<longleftrightarrow> 1 \<le> fst p \<and> fst p \<le> width g - 2 \<and> 1 \<le> snd p \<and> snd p \<le> height g - 2"

definition free_for_obstacle :: "game \<Rightarrow> cell \<Rightarrow> bool" where
  "free_for_obstacle g p \<longleftrightarrow> in_band g p \<and> p \<notin> set (cable g) \<and> p \<noteq> outlet g"

text \<open>
  The heading along which an obstacle tries to move: the one re-rolled at line 171 when
  the first draw is below 0.1, else the one that the pre-tick direction map holds (if
  any).
\<close>

definition heading :: "game \<Rightarrow> draw \<Rightarrow> cell \<Rightarrow> vec option" where
  "heading g r obs =
     (if turn_draw r < 0.1 then Some (random_direction (turn_choice r))
      else obstacle_directions g obs)"

text \<open>
  Where an obstacle ends a tick and the heading recorded for it: the destination and
  its heading when the destination is free, else its own cell and the heading drawn at
  line 186.
\<close>

definition lands :: "game \<Rightarrow> draw \<Rightarrow> cell \<Rightarrow> (cell \<times> vec) option" where
  "lands g r obs =
     (case heading g r obs of
        None \<Rightarrow> None
      | Some v \<Rightarrow>
          if free_for_obstacle g (fst obs + fst v, snd obs + snd v)
          then Some ((fst obs + fst v, snd obs + snd v), v)
          else Some (obs, random_direction (bounce_choice r)))"

section \<open>The tick\<close>

text \<open>
  The cell in front of the head, lines 225 to 227; \<^verbatim>\<open>self.cable[-1]\<close> is the last
  cell of a cable that is not empty.
\<close>

definition new_head :: "game \<Rightarrow> cell" where
  "new_head g =
     (let head = last (cable g);
          (dx, dy) = Direction_value (direction g)
      in (fst head + dx, snd head + dy))"

text \<open>The test of lines 229 to 236 on the cell in front of the head.\<close>

definition blocked :: "game \<Rightarrow> cell \<Rightarrow> bool" where
  "blocked g nh \<longleftrightarrow>
     fst nh < 0 \<or> fst nh \<ge> width g
     \<or> snd nh < 0 \<or> snd nh \<ge> height g
     \<or> nh \<in> set (cable g)
     \<or> nh \<in> obstacles g"

text \<open>
  \<^verbatim>\<open>Game.update\<close>, lines 221 to 246: the obstacles move, then the cable advances.
  The result holds what was played and printed, and the new state. On an empty cable
  \<^verbatim>\<open>self.cable[-1]\<close> raises \<^verbatim>\<open>IndexError\<close>.
\<close>

definition update :: "game \<Rightarrow> cell list \<Rightarrow> (cell \<Rightarrow> draw) \<Rightarrow> error + event list \<times> game" where
  "update g order rnd =
     (case update_obstacles g order rnd of
        Inl e \<Rightarrow> Inl e
      | Inr g1 \<Rightarrow>
          if cable g1 = [] then Inl IndexError
          else let nh = new_head g1
               in if blocked g1 nh
                  then Inr ([FailSound], g1\<lparr>running := False\<rparr>)
                  else let g2 = g1\<lparr>cable := cable g1 @ [nh]\<rparr>
                       in if nh = outlet g2
                          then Inr ([SuccessSound, Print ''You win!''], g2\<lparr>running := False\<rparr>)
                          else Inr ([], g2))"

text \<open>
  The phases of the game, read off the result of a tick: the game is lost when the
  failure sound was played and the loop flag is off, won when the success sound was
  played, the message printed and the flag is off, and active when nothing was played and
  the flag is still on.
\<close>

definition Lost :: "event list \<times> game \<Rightarrow> bool" where
  "Lost r \<longleftrightarrow> fst r = [FailSound] \<and> \<not> running (snd r)"

definition Won :: "event list \<times> game \<Rightarrow> bool" where
  "Won r \<longleftrightarrow> fst r = [SuccessSound, Print ''You win!''] \<and> \<not> running (snd r)"

definition Active :: "event list \<times> game \<Rightarrow> bool" where
  "Active r \<longleftrightarrow> fst r = [] \<and> running (snd r)"

text \<open>
  The states of a session. \<^verbatim>\<open>Game.__init__\<close> starts with the cable
  \<^verbatim>\<open>[(1, height - 2)]\<close>, heading right, and a direction for every obstacle;
  \<^verbatim>\<open>run\<close> then handles the pending events (a key press, or the request to quit)
  and calls \<^verbatim>\<open>update\<close>, which iterates over the obstacles in some order. The
  obstacle set and the outlet of the first state are left open here, so this covers
  whatever the two generators return.
\<close>

inductive step :: "game \<Rightarrow> game \<Rightarrow> bool" where
  key_press: "step g (process_direction_change k g)"
| quit: "step g (g\<lparr>running := False\<rparr>)"
| tick: "iterates order g \<Longrightarrow> update g order rnd = Inr (evs, g') \<Longrightarrow> step g g'"

inductive reachable :: "game \<Rightarrow> bool" where
  start: "dom ds = obs \<Longrightarrow>
     reachable \<lparr>width = w, height = h, cable = [(1, h - 2)], direction = RIGHT,
       obstacles = obs, obstacle_directions = ds, outlet = out, running = True\<rparr>"
| next_state: "reachable g \<Longrightarrow> step g g' \<Longrightarrow> reachable g'"

section \<open>Steering: results\<close>

lemma process_direction_change_frame:
  "process_direction_change k g = g\<lparr>direction := direction (process_direction_change k g)\<rparr>"
  by (simp add: process_direction_change_def Let_def split: prod.splits)

text \<open>
  Claim C5. For every current heading and every requested heading: a request for the
  exact opposite of the current heading leaves the heading unchanged, and a request
  perpendicular to the current heading replaces the heading at once.
\<close>

theorem process_direction_change_no_reversal:
  "(is_opposite req (direction g) \<longrightarrow>
      direction (process_direction_change (key_of req) g) = direction g)
   \<and> (is_perpendicular req (direction g) \<longrightarrow>
      direction (process_direction_change (key_of req) g) = req)"
  by (cases req; cases "direction g")
     (simp_all add: process_direction_change_def is_opposite_def is_perpendicular_def)

text \<open>
  The theorem at a game heading right: the request \<open>LEFT\<close> is the opposite heading
  and is dropped, the request \<open>UP\<close> is perpendicular and is taken.
\<close>

theorem process_direction_change_no_reversal_witness:
  "is_opposite LEFT RIGHT \<and> is_perpendicular UP RIGHT
   \<and> direction (process_direction_change (key_of LEFT)
        \<lparr>width = 5, height = 5, cable = [(1, 3)], direction = RIGHT, obstacles = {},
         obstacle_directions = Map.empty, outlet = (4, 0), running = True\<rparr>) = RIGHT
   \<and> direction (process_direction_change (key_of UP)
        \<lparr>width = 5, height = 5, cable = [(1, 3)], direction = RIGHT, obstacles = {},
         obstacle_directions = Map.empty, outlet = (4, 0), running = True\<rparr>) = UP"
  using process_direction_change_no_reversal [of LEFT
      "\<lparr>width = 5, height = 5, cable = [(1, 3)], direction = RIGHT, obstacles = {},
        obstacle_directions = Map.empty, outlet = (4, 0), running = True\<rparr>"]
    process_direction_change_no_reversal [of UP
      "\<lparr>width = 5, height = 5, cable = [(1, 3)], direction = RIGHT, obstacles = {},
        obstacle_directions = Map.empty, outlet = (4, 0), running = True\<rparr>"]
  by (simp add: is_opposite_def is_perpendicular_def)

end
